theory Spec2Isabelle
  imports Main "HOL-Library.Word"
begin

unbundle bit_operations_syntax

section \<open>The S3-to-ECR backup handler (src/lambda/handler.py)\<close>

text \<open>
  The handler talks to two AWS services through boto3. Every service call is modelled as
  an event appended to a history, and the services' answers are given by a \<open>world\<close>:
  one responder per operation, which sees the history so far and the arguments of the
  call. A Python exception is a value of type \<open>exn\<close>; every function of the handler
  returns a pair of its outcome (\<open>Inl\<close> the exception raised, \<open>Inr\<close> the value
  returned) and the history it leaves behind.

  Two remarks on the source. The line \<^verbatim>\<open>def cleanup_untagged_images():\<close> is indented
  by four spaces while its body is indented by four spaces as well; the functions are
  modelled as their bodies read. The parameters \<^verbatim>\<open>event\<close> and \<^verbatim>\<open>context\<close> of
  \<^verbatim>\<open>lambda_handler\<close> are never used and are left out.
\<close>

subsection \<open>SHA-256 (hashlib.sha256, FIPS 180-4)\<close>

type_synonym bytes = string
type_synonym w32 = "32 word"
type_synonym sha_state = "w32 \<times> w32 \<times> w32 \<times> w32 \<times> w32 \<times> w32 \<times> w32 \<times> w32"

definition rotr :: "nat \<Rightarrow> w32 \<Rightarrow> w32" where
  "rotr n x = (drop_bit n x) OR (push_bit (32 - n) x)"

definition Ch :: "w32 \<Rightarrow> w32 \<Rightarrow> w32 \<Rightarrow> w32" where
  "Ch x y z = (x AND y) XOR (NOT x AND z)"

definition Maj :: "w32 \<Rightarrow> w32 \<Rightarrow> w32 \<Rightarrow> w32" where
  "Maj x y z = (x AND y) XOR (x AND z) XOR (y AND z)"

definition Sigma0 :: "w32 \<Rightarrow> w32" where
  "Sigma0 x = rotr 2 x XOR rotr 13 x XOR rotr 22 x"

definition Sigma1 :: "w32 \<Rightarrow> w32" where
  "Sigma1 x = rotr 6 x XOR rotr 11 x XOR rotr 25 x"

definition sigma0 :: "w32 \<Rightarrow> w32" where
  "sigma0 x = rotr 7 x XOR rotr 18 x XOR drop_bit 3 x"

definition sigma1 :: "w32 \<Rightarrow> w32" where
  "sigma1 x = rotr 17 x XOR rotr 19 x XOR drop_bit 10 x"

text \<open>
  The round constants: the first 32 bits of the fractional parts of the cube roots of the
  first 64 primes; the initial state: those of the square roots of the first 8 primes.
\<close>

definition K256 :: "w32 list" where
  "K256 = [
    1116352408, 1899447441, 3049323471, 3921009573, 961987163, 1508970993,
    2453635748, 2870763221, 3624381080, 310598401, 607225278, 1426881987,
    1925078388, 2162078206, 2614888103, 3248222580, 3835390401, 4022224774,
    264347078, 604807628, 770255983, 1249150122, 1555081692, 1996064986,
    2554220882, 2821834349, 2952996808, 3210313671, 3336571891, 3584528711,
    113926993, 338241895, 666307205, 773529912, 1294757372, 1396182291,
    1695183700, 1986661051, 2177026350, 2456956037, 2730485921, 2820302411,
    3259730800, 3345764771, 3516065817, 3600352804, 4094571909, 275423344,
    430227734, 506948616, 659060556, 883997877, 958139571, 1322822218,
    1537002063, 1747873779, 1955562222, 2024104815, 2227730452, 2361852424,
    2428436474, 2756734187, 3204031479, 3329325298]"

definition H256 :: sha_state where
  "H256 = (1779033703, 3144134277, 1013904242, 2773480762,
           1359893119, 2600822924, 528734635, 1541459225)"

definition be64 :: "nat \<Rightarrow> nat list" where
  "be64 n = [n div 2 ^ 56 mod 256, n div 2 ^ 48 mod 256, n div 2 ^ 40 mod 256,
             n div 2 ^ 32 mod 256, n div 2 ^ 24 mod 256, n div 2 ^ 16 mod 256,
             n div 2 ^ 8 mod 256, n mod 256]"

definition pad :: "bytes \<Rightarrow> nat list" where
  "pad m = map of_char m @ [128] @ replicate ((119 - length m mod 64) mod 64) 0
           @ be64 ((8 * length m) mod 2 ^ 64)"

function blocks :: "nat list \<Rightarrow> nat list list" where
  "blocks xs = (if xs = [] then [] else take 64 xs # blocks (drop 64 xs))"
  by pat_completeness auto
termination
  by (relation "measure length") auto

declare blocks.simps [simp del]

definition be32 :: "nat list \<Rightarrow> w32" where
  "be32 bs = of_nat (foldl (\<lambda>a b. a * 256 + b) 0 bs)"

fun words :: "nat \<Rightarrow> nat list \<Rightarrow> w32 list" where
  "words 0 bs = []"
| "words (Suc n) bs = be32 (take 4 bs) # words n (drop 4 bs)"

definition next_w :: "w32 list \<Rightarrow> w32" where
  "next_w ws = sigma1 (ws ! 14) + ws ! 9 + sigma0 (ws ! 1) + ws ! 0"

fun schedule_from :: "nat \<Rightarrow> w32 list \<Rightarrow> w32 list" where
  "schedule_from 0 ws = []"
| "schedule_from (Suc n) ws = hd ws # schedule_from n (tl ws @ [next_w ws])"

definition schedule :: "nat list \<Rightarrow> w32 list" where
  "schedule block = schedule_from 64 (words 16 block)"

fun round256 :: "sha_state \<Rightarrow> w32 \<times> w32 \<Rightarrow> sha_state" where
  "round256 (a, b, c, d, e, f, g, h) (k, w) =
     (let T1 = h + Sigma1 e + Ch e f g + k + w;
          T2 = Sigma0 a + Maj a b c
      in (T1 + T2, a, b, c, d + T1, e, f, g))"

fun add_state :: "sha_state \<Rightarrow> sha_state \<Rightarrow> sha_state" where
  "add_state (a, b, c, d, e, f, g, h) (a', b', c', d', e', f', g', h') =
     (a + a', b + b', c + c', d + d', e + e', f + f', g + g', h + h')"

definition compress :: "sha_state \<Rightarrow> nat list \<Rightarrow> sha_state" where
  "compress hs block = add_state hs (foldl round256 hs (zip K256 (schedule block)))"

definition hex_digit :: "w32 \<Rightarrow> char" where
  "hex_digit w = ''0123456789abcdef'' ! unat (w AND 15)"

definition hex32 :: "w32 \<Rightarrow> string" where
  "hex32 w = [hex_digit (drop_bit 28 w), hex_digit (drop_bit 24 w), hex_digit (drop_bit 20 w),
              hex_digit (drop_bit 16 w), hex_digit (drop_bit 12 w), hex_digit (drop_bit 8 w),
              hex_digit (drop_bit 4 w), hex_digit w]"

fun hex_state :: "sha_state \<Rightarrow> string" where
  "hex_state (a, b, c, d, e, f, g, h) =
     hex32 a @ hex32 b @ hex32 c @ hex32 d @ hex32 e @ hex32 f @ hex32 g @ hex32 h"

definition sha256_hexdigest :: "bytes \<Rightarrow> string" where
  "sha256_hexdigest m = hex_state (foldl compress H256 (blocks (pad m)))"

subsection \<open>Exceptions, calls, logging\<close>

text \<open>
  botocore's \<^verbatim>\<open>ClientError\<close> is the class of errors answered by a service;
  \<^verbatim>\<open>RepositoryNotFoundException\<close> is one of its subclasses. \<open>BotoCoreError\<close>
  stands for botocore's other exceptions (connection failures, parameter validation),
  which are not \<^verbatim>\<open>ClientError\<close>s.
\<close>

datatype exn =
    RepositoryNotFoundException string
  | ClientError string
  | BotoCoreError string
  | IndexError
  | ValueError string
  | BinasciiError string
  | UnicodeDecodeError

fun is_ClientError :: "exn \<Rightarrow> bool" where
  "is_ClientError (RepositoryNotFoundException m) = True"
| "is_ClientError (ClientError m) = True"
| "is_ClientError e = False"

fun is_RepositoryNotFoundException :: "exn \<Rightarrow> bool" where
  "is_RepositoryNotFoundException (RepositoryNotFoundException m) = True"
| "is_RepositoryNotFoundException e = False"

datatype call =
    DescribeRepositories "string option list"
  | CreateRepository "string option"
  | ListObjectsV2 "string option" string
  | GetObject "string option" string
  | GetAuthorizationToken
  | InitiateLayerUpload "string option"
  | UploadLayerPart "string option" string int int bytes
  | CompleteLayerUpload "string option" string "string list"
  | PutImage "string option" string string
  | DescribeImages "string option" string
  | BatchDeleteImage "string option" "string list"

datatype level = INFO | WARNING | ERROR

text \<open>
  A log message is the f-string of the source: literal text and interpolated values;
  \<open>QStr\<close> and \<open>QOptStr\<close> are values written between apostrophes.
\<close>

datatype piece =
    Lit string
  | Str string
  | QStr string
  | QOptStr "string option"
  | Num int
  | Exn exn
  | Strs "string list"

datatype event = Call call | Log level "piece list"

type_synonym history = "event list"

fun calls_of :: "history \<Rightarrow> call list" where
  "calls_of [] = []"
| "calls_of (Call c # es) = c # calls_of es"
| "calls_of (Log l m # es) = calls_of es"

fun logs_of :: "history \<Rightarrow> (level \<times> piece list) list" where
  "logs_of [] = []"
| "logs_of (Call c # es) = logs_of es"
| "logs_of (Log l m # es) = (l, m) # logs_of es"

text \<open>
  The responders. A response carries the fields the handler reads:
  the \<^verbatim>\<open>repositoryUri\<close> of each described repository, the keys of \<^verbatim>\<open>Contents\<close>
  (\<open>None\<close> when the listing has no \<^verbatim>\<open>Contents\<close>), the pairs of
  \<^verbatim>\<open>authorizationToken\<close> and \<^verbatim>\<open>proxyEndpoint\<close>, the \<^verbatim>\<open>uploadId\<close>, the
  \<^verbatim>\<open>imageDigest\<close> of each image detail (\<open>None\<close> when a detail has none; the outer
  \<open>None\<close> when the response has no \<^verbatim>\<open>imageDetails\<close>), and the \<^verbatim>\<open>imageIds\<close> and
  \<^verbatim>\<open>failures\<close> of a batch delete (each \<open>None\<close> when absent).
\<close>

record world =
  describe_repositories :: "history \<Rightarrow> string option list \<Rightarrow> exn + string list"
  create_repository :: "history \<Rightarrow> string option \<Rightarrow> exn + string"
  list_objects_v2 :: "history \<Rightarrow> string option \<Rightarrow> string \<Rightarrow> exn + string list option"
  get_object :: "history \<Rightarrow> string option \<Rightarrow> string \<Rightarrow> exn + bytes"
  get_authorization_token :: "history \<Rightarrow> exn + (string \<times> string) list"
  initiate_layer_upload :: "history \<Rightarrow> string option \<Rightarrow> exn + string"
  upload_layer_part ::
    "history \<Rightarrow> string option \<Rightarrow> string \<Rightarrow> int \<Rightarrow> int \<Rightarrow> bytes \<Rightarrow> exn + unit"
  complete_layer_upload :: "history \<Rightarrow> string option \<Rightarrow> string \<Rightarrow> string list \<Rightarrow> exn + unit"
  put_image :: "history \<Rightarrow> string option \<Rightarrow> string \<Rightarrow> string \<Rightarrow> exn + unit"
  describe_images :: "history \<Rightarrow> string option \<Rightarrow> string \<Rightarrow> exn + string option list option"
  batch_delete_image ::
    "history \<Rightarrow> string option \<Rightarrow> string list \<Rightarrow> exn + (string list option \<times> string list option)"

text \<open>The environment variables; \<^verbatim>\<open>os.environ.get\<close> gives \<open>None\<close> for an unset one.\<close>

record config =
  S3_BUCKET_NAME :: "string option"
  S3_PREFIX_FILTER :: string
  ECR_REPO_NAME :: "string option"

subsection \<open>ensure_repository_exists\<close>

definition ensure_repository_exists :: "config \<Rightarrow> world \<Rightarrow> history \<Rightarrow> (exn + string) \<times> history" where
  "ensure_repository_exists cfg w h =
     (let h1 = h @ [Call (DescribeRepositories [ECR_REPO_NAME cfg])]
      in case describe_repositories w h [ECR_REPO_NAME cfg] of
           Inr repositories \<Rightarrow>
             (let h2 = h1 @ [Log INFO [Lit ''ECR repository '', QOptStr (ECR_REPO_NAME cfg),
                                       Lit '' already exists.'']]
              in case repositories of
                   [] \<Rightarrow> (Inl IndexError, h2)
                 | repositoryUri # rest \<Rightarrow> (Inr repositoryUri, h2))
         | Inl e \<Rightarrow>
             if is_RepositoryNotFoundException e
             then (let h2 = h1 @ [Log INFO [Lit ''ECR repository '', QOptStr (ECR_REPO_NAME cfg),
                                            Lit '' not found, creating...'']];
                       h3 = h2 @ [Call (CreateRepository (ECR_REPO_NAME cfg))]
                   in case create_repository w h2 (ECR_REPO_NAME cfg) of
                        Inl e' \<Rightarrow> (Inl e', h3)
                      | Inr repositoryUri \<Rightarrow> (Inr repositoryUri, h3))
             else (Inl e, h1))"

subsection \<open>Decoding the authorization token\<close>

text \<open>
  \<^verbatim>\<open>base64.b64decode\<close> of a \<^verbatim>\<open>str\<close>: the string must be ASCII; then
  \<^verbatim>\<open>binascii.a2b_base64\<close> runs in its lenient mode, which skips every character
  outside the alphabet and stops at the padding that completes a quad.
\<close>

definition b64_value :: "char \<Rightarrow> nat option" where
  "b64_value c =
     (let n = (of_char c :: nat)
      in if 65 \<le> n \<and> n \<le> 90 then Some (n - 65)
         else if 97 \<le> n \<and> n \<le> 122 then Some (n - 71)
         else if 48 \<le> n \<and> n \<le> 57 then Some (n + 4)
         else if n = 43 then Some 62
         else if n = 47 then Some 63
         else None)"

definition emit :: "nat \<Rightarrow> exn + bytes \<Rightarrow> exn + bytes" where
  "emit b r = (case r of Inl e \<Rightarrow> Inl e | Inr bs \<Rightarrow> Inr (char_of b # bs))"

fun a2b_base64 :: "nat \<Rightarrow> nat \<Rightarrow> nat \<Rightarrow> string \<Rightarrow> exn + bytes" where
  "a2b_base64 quad_pos leftchar pads [] =
     (if quad_pos = 0 then Inr []
      else if quad_pos = 1 then Inl (BinasciiError ''Invalid base64-encoded string'')
      else Inl (BinasciiError ''Incorrect padding''))"
| "a2b_base64 quad_pos leftchar pads (c # cs) =
     (if c = CHR ''='' then
        (if 2 \<le> quad_pos then
           (if 4 \<le> quad_pos + (pads + 1) then Inr []
            else a2b_base64 quad_pos leftchar (pads + 1) cs)
         else a2b_base64 quad_pos leftchar pads cs)
      else case b64_value c of
        None \<Rightarrow> a2b_base64 quad_pos leftchar pads cs
      | Some v \<Rightarrow>
         (if quad_pos = 0 then a2b_base64 1 v 0 cs
          else if quad_pos = 1 then
            emit (leftchar * 4 + v div 16) (a2b_base64 2 (v mod 16) 0 cs)
          else if quad_pos = 2 then
            emit (leftchar * 16 + v div 4) (a2b_base64 3 (v mod 4) 0 cs)
          else emit (leftchar * 64 + v) (a2b_base64 0 0 0 cs)))"

definition b64decode :: "string \<Rightarrow> exn + bytes" where
  "b64decode s =
     (if list_ex (\<lambda>c. 128 \<le> (of_char c :: nat)) s
      then Inl (ValueError ''string argument should contain only ASCII characters'')
      else a2b_base64 0 0 0 s)"

text \<open>
  \<^verbatim>\<open>bytes.decode()\<close> decodes UTF-8 strictly. A text is kept as its UTF-8 bytes, so
  decoding is the check that the bytes are well-formed UTF-8. The state of the check is
  the number of continuation bytes still due and the range allowed for the next one.
\<close>

fun utf8_step :: "(nat \<times> nat \<times> nat) option \<Rightarrow> nat \<Rightarrow> (nat \<times> nat \<times> nat) option" where
  "utf8_step None b = None"
| "utf8_step (Some (0, lo, hi)) b =
     (if b < 128 then Some (0, 128, 191)
      else if 194 \<le> b \<and> b \<le> 223 then Some (1, 128, 191)
      else if b = 224 then Some (2, 160, 191)
      else if 225 \<le> b \<and> b \<le> 236 then Some (2, 128, 191)
      else if b = 237 then Some (2, 128, 159)
      else if 238 \<le> b \<and> b \<le> 239 then Some (2, 128, 191)
      else if b = 240 then Some (3, 144, 191)
      else if 241 \<le> b \<and> b \<le> 243 then Some (3, 128, 191)
      else if b = 244 then Some (3, 128, 143)
      else None)"
| "utf8_step (Some (Suc n, lo, hi)) b =
     (if lo \<le> b \<and> b \<le> hi then Some (n, 128, 191) else None)"

definition decode :: "bytes \<Rightarrow> exn + string" where
  "decode bs =
     (case foldl utf8_step (Some (0, 128, 191)) (map of_char bs) of
        Some (0, lo, hi) \<Rightarrow> Inr bs
      | _ \<Rightarrow> Inl UnicodeDecodeError)"

text \<open>\<^verbatim>\<open>str.split(":")\<close>: the pieces between the colons, always at least one.\<close>

fun split_colon :: "string \<Rightarrow> string list" where
  "split_colon [] = [[]]"
| "split_colon (c # cs) =
     (if c = CHR '':'' then [] # split_colon cs
      else case split_colon cs of
             [] \<Rightarrow> [[c]]
           | p # ps \<Rightarrow> (c # p) # ps)"

text \<open>
  Lines 57 and 58: \<^verbatim>\<open>token = base64.b64decode(...)\<close> and
  \<^verbatim>\<open>username, password = token.decode().split(":")\<close>; unpacking anything but two
  pieces raises \<^verbatim>\<open>ValueError\<close>.
\<close>

definition decode_token :: "string \<Rightarrow> exn + (string \<times> string)" where
  "decode_token authorizationToken =
     (case b64decode authorizationToken of
        Inl e \<Rightarrow> Inl e
      | Inr token \<Rightarrow>
         (case decode token of
            Inl e \<Rightarrow> Inl e
          | Inr text \<Rightarrow>
             (case split_colon text of
                [username, password] \<Rightarrow> Inr (username, password)
              | _ \<Rightarrow> Inl (ValueError ''wrong number of values to unpack''))))"

subsection \<open>The image manifest\<close>

text \<open>\<^verbatim>\<open>str\<close> of a length: its decimal digits.\<close>

definition digit_char :: "nat \<Rightarrow> char" where
  "digit_char d = char_of (48 + d)"

fun str_nat :: "nat \<Rightarrow> string" where
  "str_nat n = (if n < 10 then [digit_char n] else str_nat (n div 10) @ [digit_char (n mod 10)])"

declare str_nat.simps [simp del]

definition nl :: string where
  "nl = [CHR 0x0A]"

definition quote :: string where
  "quote = [CHR 0x22]"

definition sp :: "nat \<Rightarrow> string" where
  "sp n = replicate n CHR '' ''"

text \<open>A name or a text between double quotes.\<close>

definition q :: "string \<Rightarrow> string" where
  "q s = quote @ s @ quote"

text \<open>
  The f-string of lines 87 to 104, line by line: the text starts with a line break,
  every line keeps its indentation, and the closing line is twelve spaces.
\<close>

definition image_manifest :: "string \<Rightarrow> nat \<Rightarrow> string" where
  "image_manifest layer_digest n = concat
     [nl,
      sp 12, ''{'', nl,
      sp 16, q ''schemaVersion'', '': 2,'', nl,
      sp 16, q ''mediaType'', '': '', q ''application/vnd.oci.image.manifest.v1+json'', '','', nl,
      sp 16, q ''config'', '': {'', nl,
      sp 20, q ''mediaType'', '': '', q ''application/vnd.oci.image.config.v1+json'', '','', nl,
      sp 20, q ''digest'', '': '', q layer_digest, '','', nl,
      sp 20, q ''size'', '': '', str_nat n, nl,
      sp 16, ''},'', nl,
      sp 16, q ''layers'', '': ['', nl,
      sp 20, ''{'', nl,
      sp 24, q ''mediaType'', '': '', q ''application/vnd.oci.image.layer.v1.tar'', '','', nl,
      sp 24, q ''digest'', '': '', q layer_digest, '','', nl,
      sp 24, q ''size'', '': '', str_nat n, nl,
      sp 20, ''}'', nl,
      sp 16, '']'', nl,
      sp 12, ''}'', nl,
      sp 12]"

subsection \<open>upload_to_ecr\<close>

text \<open>The body of the \<^verbatim>\<open>try\<close> block, lines 64 to 109.\<close>

definition upload_to_ecr_try ::
  "config \<Rightarrow> world \<Rightarrow> bytes \<Rightarrow> string \<Rightarrow> history \<Rightarrow> (exn + string) \<times> history" where
  "upload_to_ecr_try cfg w file_bytes image_tag h =
     (let h1 = h @ [Call (InitiateLayerUpload (ECR_REPO_NAME cfg))]
      in case initiate_layer_upload w h (ECR_REPO_NAME cfg) of
           Inl e \<Rightarrow> (Inl e, h1)
         | Inr upload_id \<Rightarrow>
      (let h2 = h1 @ [Call (UploadLayerPart (ECR_REPO_NAME cfg) upload_id 0
                              (int (length file_bytes) - 1) file_bytes)]
       in case upload_layer_part w h1 (ECR_REPO_NAME cfg) upload_id 0
                 (int (length file_bytes) - 1) file_bytes of
            Inl e \<Rightarrow> (Inl e, h2)
          | Inr u \<Rightarrow>
      (let layer_digest = ''sha256:'' @ sha256_hexdigest file_bytes;
           h3 = h2 @ [Call (CompleteLayerUpload (ECR_REPO_NAME cfg) upload_id [layer_digest])]
       in case complete_layer_upload w h2 (ECR_REPO_NAME cfg) upload_id [layer_digest] of
            Inl e \<Rightarrow> (Inl e, h3)
          | Inr u \<Rightarrow>
      (let manifest = image_manifest layer_digest (length file_bytes);
           h4 = h3 @ [Call (PutImage (ECR_REPO_NAME cfg) manifest image_tag)]
       in case put_image w h3 (ECR_REPO_NAME cfg) manifest image_tag of
            Inl e \<Rightarrow> (Inl e, h4)
          | Inr response \<Rightarrow>
              (Inr image_tag, h4 @ [Log INFO [Lit ''Uploaded as image tag: '', Str image_tag]])))))"

definition upload_to_ecr ::
  "config \<Rightarrow> world \<Rightarrow> string \<Rightarrow> bytes \<Rightarrow> history \<Rightarrow> (exn + string) \<times> history" where
  "upload_to_ecr cfg w object_key file_bytes h =
     (let h0 = h @ [Log INFO [Lit ''Uploading S3 object '', QStr object_key, Lit '' to ECR...'']];
          file_hash = take 12 (sha256_hexdigest file_bytes);
          image_tag = file_hash;
          h1 = h0 @ [Call GetAuthorizationToken]
      in case get_authorization_token w h0 of
           Inl e \<Rightarrow> (Inl e, h1)
         | Inr authorizationData \<Rightarrow>
            (case authorizationData of
               [] \<Rightarrow> (Inl IndexError, h1)
             | (authorizationToken, proxyEndpoint) # rest \<Rightarrow>
                (case decode_token authorizationToken of
                   Inl e \<Rightarrow> (Inl e, h1)
                 | Inr (username, password) \<Rightarrow>
                    (case upload_to_ecr_try cfg w file_bytes image_tag h1 of
                       (Inl e, h2) \<Rightarrow>
                         if is_ClientError e
                         then (Inl e, h2 @ [Log ERROR [Lit ''Failed to upload to ECR: '', Exn e]])
                         else (Inl e, h2)
                     | (Inr tag, h2) \<Rightarrow> (Inr tag, h2)))))"

subsection \<open>cleanup_untagged_images\<close>




subsection \<open>lambda_handler\<close>

record item =
  object_key :: string
  image_tag :: string

text \<open>The dictionary returned: \<^verbatim>\<open>status\<close>, and \<^verbatim>\<open>items\<close> when there is one.\<close>

record result =
  status :: string
  items :: "item list option"

text \<open>The \<^verbatim>\<open>for\<close> loop of lines 189 to 211 over the keys still to process.\<close>

fun process_objects ::
  "config \<Rightarrow> world \<Rightarrow> string list \<Rightarrow> item list \<Rightarrow> history \<Rightarrow> (exn + item list) \<times> history" where
  "process_objects cfg w [] results h = (Inr results, h)"
| "process_objects cfg w (key # keys) results h =
     (let h0 = h @ [Log INFO [Lit ''Processing S3 object: '', Str key]];
          h1 = h0 @ [Call (GetObject (S3_BUCKET_NAME cfg) key)]
      in case get_object w h0 (S3_BUCKET_NAME cfg) key of
           Inl e \<Rightarrow>
             if is_ClientError e
             then process_objects cfg w keys results
                    (h1 @ [Log ERROR [Lit ''Error downloading S3 object '', QStr key, Lit '': '', Exn e]])
             else (Inl e, h1)
         | Inr file_bytes \<Rightarrow>
            (case upload_to_ecr cfg w key file_bytes h1 of
               (Inl e, h2) \<Rightarrow> (Inl e, h2)
             | (Inr tag, h2) \<Rightarrow>
                 process_objects cfg w keys
                   (results @ [\<lparr>object_key = key, image_tag = tag\<rparr>]) h2))"

definition lambda_handler :: "config \<Rightarrow> world \<Rightarrow> history \<Rightarrow> (exn + result) \<times> history" where
  "lambda_handler cfg w h =
     (let h0 = h @ [Log INFO [Lit ''Lambda function started.'']]
      in case ensure_repository_exists cfg w h0 of
           (Inl e, h1) \<Rightarrow> (Inl e, h1)
         | (Inr repo_uri, h1) \<Rightarrow>
      (let h2 = h1 @ [Log INFO [Lit ''ECR repository URI: '', Str repo_uri]];
           h3 = h2 @ [Call (ListObjectsV2 (S3_BUCKET_NAME cfg) (S3_PREFIX_FILTER cfg))]
       in case list_objects_v2 w h2 (S3_BUCKET_NAME cfg) (S3_PREFIX_FILTER cfg) of
            Inl e \<Rightarrow>
              if is_ClientError e
              then (Inl e, h3 @ [Log ERROR [Lit ''Error reading S3 bucket: '', Exn e]])
              else (Inl e, h3)
          | Inr None \<Rightarrow>
              (Inr \<lparr>status = ''no_objects'', items = None\<rparr>,
               h3 @ [Log INFO [Lit ''No objects to process.'']])
          | Inr (Some contents) \<Rightarrow>
             (case process_objects cfg w contents [] h3 of
                (Inl e, h4) \<Rightarrow> (Inl e, h4)
              | (Inr results, h4) \<Rightarrow>
                  (Inr \<lparr>status = ''success'', items = Some results\<rparr>,
                   h4 @ [Log INFO [Lit ''Backup completed for '', Num (int (length results)),
                                   Lit '' objects.'']]))))"

subsection \<open>Concrete worlds for the examples\<close>

definition test_config :: config where
  "test_config = \<lparr>S3_BUCKET_NAME = Some ''bucket'', S3_PREFIX_FILTER = '''',
                   ECR_REPO_NAME = Some ''backup''\<rparr>"

definition test_uri :: string where
  "test_uri = ''123456789012.dkr.ecr.us-east-1.amazonaws.com/backup''"

text \<open>
  A world in which every call succeeds: the repository exists, the bucket holds the one
  object \<^verbatim>\<open>file1.txt\<close> with content \<^verbatim>\<open>hello\<close>, the authorization token is the
  base64 encoding of \<^verbatim>\<open>AWS:secret\<close>, and no image is untagged.
\<close>

definition happy_world :: world where
  "happy_world = \<lparr>
     describe_repositories = (\<lambda>h names. Inr [test_uri]),
     create_repository = (\<lambda>h name. Inr test_uri),
     list_objects_v2 = (\<lambda>h bucket prefix. Inr (Some [''file1.txt''])),
     get_object = (\<lambda>h bucket key. Inr ''hello''),
     get_authorization_token = (\<lambda>h. Inr [(''QVdTOnNlY3JldA=='', ''https://registry.example'')]),
     initiate_layer_upload = (\<lambda>h repo. Inr ''upload-1''),
     upload_layer_part = (\<lambda>h repo uid first last blob. Inr ()),
     complete_layer_upload = (\<lambda>h repo uid digests. Inr ()),
     put_image = (\<lambda>h repo manifest tag. Inr ()),
     describe_images = (\<lambda>h repo status. Inr (Some [])),
     batch_delete_image = (\<lambda>h repo digests. Inr (Some digests, Some []))\<rparr>"




text \<open>The two calls that only the sweep makes.\<close>

fun is_sweep_call :: "call \<Rightarrow> bool" where
  "is_sweep_call (DescribeImages repo st) = True"
| "is_sweep_call (BatchDeleteImage repo ds) = True"
| "is_sweep_call c = False"

text \<open>
  The example content: the padded block of \<^verbatim>\<open>hello\<close>, its message schedule and
  the state after each sixteen rounds.
\<close>

definition hello_block :: "nat list" where
  "hello_block =
     [104, 101, 108, 108, 111, 128, 0, 0, 0, 0, 0, 0, 0, 0, 0, 0,
     0, 0, 0, 0, 0, 0, 0, 0, 0, 0, 0, 0, 0, 0, 0, 0,
     0, 0, 0, 0, 0, 0, 0, 0, 0, 0, 0, 0, 0, 0, 0, 0,
     0, 0, 0, 0, 0, 0, 0, 0, 0, 0, 0, 0, 0, 0, 0, 40]"

definition hello_schedule :: "w32 list" where
  "hello_schedule =
     [1751477356, 1870659584, 0, 0, 0, 0,
     0, 0, 0, 0, 0, 0,
     0, 0, 0, 40, 1972668492, 1871773696,
     3576877402, 2686180986, 850623627, 2497315577, 3520615416, 3063633602,
     2470970563, 2529655973, 2734245958, 2224506095, 568147562, 480471808,
     1066760801, 544853894, 1811708987, 203464011, 573055580, 3994735195,
     3318782032, 120789122, 2540970949, 2791823097, 3154398022, 2508558385,
     1553517154, 1686506523, 2129119095, 382031986, 2096528681, 1213710648,
     2743028353, 905510147, 4050648290, 1834262428, 2704274196, 4051799476,
     4190818614, 3378566924, 974714360, 4127060666, 3885636394, 1575633733,
     1880933106, 1016800738, 3378973474, 1044165985]"

subsection \<open>Reading a manifest\<close>

text \<open>
  To say what a manifest states, its text is read back as JSON: a lexer for the tokens of
  JSON without escape sequences, signs, fractions and keywords, and a parser of the
  token list into a value. Both give \<open>None\<close> for a text outside this fragment.
\<close>

datatype token =
    TLBrace | TRBrace | TLBracket | TRBracket | TColon | TComma
  | TString string
  | TNumber nat

datatype json =
    JNumber nat
  | JString string
  | JArray "json list"
  | JObject "(string \<times> json) list"






fun parse_value :: "nat \<Rightarrow> token list \<Rightarrow> (json \<times> token list) option"
  and parse_members :: "nat \<Rightarrow> token list \<Rightarrow> ((string \<times> json) list \<times> token list) option"
  and parse_elements :: "nat \<Rightarrow> token list \<Rightarrow> (json list \<times> token list) option" where
  "parse_value 0 ts = None"
| "parse_value (Suc n) ts =
     (case ts of
        TNumber k # r \<Rightarrow> Some (JNumber k, r)
      | TString s # r \<Rightarrow> Some (JString s, r)
      | TLBrace # TRBrace # r \<Rightarrow> Some (JObject [], r)
      | TLBrace # r \<Rightarrow>
          (case parse_members n r of
             None \<Rightarrow> None
           | Some (kvs, r') \<Rightarrow> Some (JObject kvs, r'))
      | TLBracket # TRBracket # r \<Rightarrow> Some (JArray [], r)
      | TLBracket # r \<Rightarrow>
          (case parse_elements n r of
             None \<Rightarrow> None
           | Some (vs, r') \<Rightarrow> Some (JArray vs, r'))
      | _ \<Rightarrow> None)"
| "parse_members 0 ts = None"
| "parse_members (Suc n) ts =
     (case ts of
        TString k # TColon # r \<Rightarrow>
          (case parse_value n r of
             Some (v, TComma # r') \<Rightarrow>
               (case parse_members n r' of
                  None \<Rightarrow> None
                | Some (kvs, r'') \<Rightarrow> Some ((k, v) # kvs, r''))
           | Some (v, TRBrace # r') \<Rightarrow> Some ([(k, v)], r')
           | _ \<Rightarrow> None)
      | _ \<Rightarrow> None)"
| "parse_elements 0 ts = None"
| "parse_elements (Suc n) ts =
     (case parse_value n ts of
        Some (v, TComma # r') \<Rightarrow>
          (case parse_elements n r' of
             None \<Rightarrow> None
           | Some (vs, r'') \<Rightarrow> Some (v # vs, r''))
      | Some (v, TRBracket # r') \<Rightarrow> Some ([v], r')
      | _ \<Rightarrow> None)"



section \<open>Properties\<close>

lemma calls_of_append: "calls_of (xs @ ys) = calls_of xs @ calls_of ys"
  by (induction xs rule: calls_of.induct) simp_all

lemma hex_digit_in: "hex_digit w \<in> set ''0123456789abcdef''"
proof -
  have "unat (w AND 15) \<le> unat (15 :: w32)"
    by (rule word_and_le1 [THEN word_le_nat_alt [THEN iffD1]])
  then have "unat (w AND 15) < length ''0123456789abcdef''"
    by simp
  then show ?thesis
    unfolding hex_digit_def by (rule nth_mem)
qed

lemma hex32_length: "length (hex32 w) = 8"
  by (simp add: hex32_def)

lemma hex32_set_aux: "(\<And>x. hex_digit x \<in> S) \<Longrightarrow> set (hex32 w) \<subseteq> S"
  by (simp add: hex32_def)

lemma hex32_set: "set (hex32 w) \<subseteq> set ''0123456789abcdef''"
  by (rule hex32_set_aux) (rule hex_digit_in)

lemma hex_state_length: "length (hex_state s) = 64"
  by (cases s rule: hex_state.cases) (simp add: hex32_length)

lemma hex_state_set_aux: "(\<And>x. set (hex32 x) \<subseteq> S) \<Longrightarrow> set (hex_state s) \<subseteq> S"
  by (cases s rule: hex_state.cases) simp

lemma hex_state_set: "set (hex_state s) \<subseteq> set ''0123456789abcdef''"
  by (rule hex_state_set_aux) (rule hex32_set)

lemma sha256_hexdigest_length: "length (sha256_hexdigest m) = 64"
  by (simp add: sha256_hexdigest_def hex_state_length)

lemma sha256_hexdigest_set: "set (sha256_hexdigest m) \<subseteq> set ''0123456789abcdef''"
  unfolding sha256_hexdigest_def by (rule hex_state_set)

text \<open>What a successful pass through the \<^verbatim>\<open>try\<close> block has done.\<close>

lemma upload_to_ecr_try_Inr:
  assumes "upload_to_ecr_try cfg w b tag h = (Inr t, h')"
  shows "\<exists>upload_id.
           initiate_layer_upload w h (ECR_REPO_NAME cfg) = Inr upload_id \<and>
           t = tag \<and>
           h' = h @ [Call (InitiateLayerUpload (ECR_REPO_NAME cfg)),
                     Call (UploadLayerPart (ECR_REPO_NAME cfg) upload_id 0 (int (length b) - 1) b),
                     Call (CompleteLayerUpload (ECR_REPO_NAME cfg) upload_id
                             [''sha256:'' @ sha256_hexdigest b]),
                     Call (PutImage (ECR_REPO_NAME cfg)
                             (image_manifest (''sha256:'' @ sha256_hexdigest b) (length b)) tag),
                     Log INFO [Lit ''Uploaded as image tag: '', Str tag]]"
  using assms
  by (auto simp: upload_to_ecr_try_def Let_def split: sum.splits)

lemma upload_to_ecr_Inr:
  assumes "upload_to_ecr cfg w key b h = (Inr t, h')"
  shows "upload_to_ecr_try cfg w b (take 12 (sha256_hexdigest b))
           (h @ [Log INFO [Lit ''Uploading S3 object '', QStr key, Lit '' to ECR...''],
                 Call GetAuthorizationToken]) = (Inr t, h')"
  using assms
  by (auto simp: upload_to_ecr_def Let_def split: sum.splits list.splits prod.splits if_splits)

text \<open>The token of the example world decodes to the user \<^verbatim>\<open>AWS\<close> and a password.\<close>

lemma b64decode_example: "b64decode ''QVdTOnNlY3JldA=='' = Inr ''AWS:secret''"
  by (simp add: b64decode_def b64_value_def emit_def char_of_def bit_Suc_0_iff)

lemma decode_token_example: "decode_token ''QVdTOnNlY3JldA=='' = Inr (''AWS'', ''secret'')"
  by (simp add: decode_token_def b64decode_example decode_def)

lemma happy_world_upload:
  "upload_to_ecr test_config happy_world key b h =
     (Inr (take 12 (sha256_hexdigest b)),
      h @ [Log INFO [Lit ''Uploading S3 object '', QStr key, Lit '' to ECR...''],
           Call GetAuthorizationToken,
           Call (InitiateLayerUpload (Some ''backup'')),
           Call (UploadLayerPart (Some ''backup'') ''upload-1'' 0 (int (length b) - 1) b),
           Call (CompleteLayerUpload (Some ''backup'') ''upload-1''
                   [''sha256:'' @ sha256_hexdigest b]),
           Call (PutImage (Some ''backup'')
                   (image_manifest (''sha256:'' @ sha256_hexdigest b) (length b))
                   (take 12 (sha256_hexdigest b))),
           Log INFO [Lit ''Uploaded as image tag: '', Str (take 12 (sha256_hexdigest b))]])"
  by (simp add: upload_to_ecr_def upload_to_ecr_try_def happy_world_def test_config_def
        decode_token_example Let_def)

subsection \<open>Evaluating SHA-256 on the example content\<close>

lemma blocks_Nil: "blocks [] = []"
  by (simp add: blocks.simps)

lemma blocks_Cons: "blocks (x # xs) = take 64 (x # xs) # blocks (drop 64 (x # xs))"
  by (subst blocks.simps) simp

lemma replicate_numeral: "replicate (numeral v) x = x # replicate (pred_numeral v) x"
  by (simp add: numeral_eq_Suc)

lemma words_numeral: "words (numeral v) bs = be32 (take 4 bs) # words (pred_numeral v) (drop 4 bs)"
  by (simp add: numeral_eq_Suc)

lemma schedule_from_numeral:
  "schedule_from (numeral v) ws = hd ws # schedule_from (pred_numeral v) (tl ws @ [next_w ws])"
  by (simp add: numeral_eq_Suc)

text \<open>A numeral of 33 bits or more is brought back below \<open>2 ^ 32\<close>.\<close>

lemma w32_of_nat_mod: "(of_nat (k mod 2 ^ 32) :: w32) = of_nat k"
  by (simp add: word_of_nat_eq_iff take_bit_eq_mod)

lemma w32_norm:
  "2 ^ 32 \<le> (numeral n :: nat) \<Longrightarrow> (numeral n :: w32) = of_nat (numeral n mod 2 ^ 32)"
  unfolding w32_of_nat_mod by (simp only: of_nat_numeral)

lemma blocks_pad_hello: "blocks (pad ''hello'') = [hello_block]"
  by (simp add: pad_def be64_def replicate_numeral blocks_Nil blocks_Cons hello_block_def)

lemma schedule_hello: "schedule hello_block = hello_schedule"
  by (simp add: hello_block_def hello_schedule_def schedule_def words_numeral be32_def
        schedule_from_numeral next_w_def sigma0_def sigma1_def rotr_def w32_norm)

lemma rounds_hello_1:
  "foldl round256
     (1779033703, 3144134277, 1013904242, 2773480762, 1359893119, 2600822924, 528734635, 1541459225)
     (zip [1116352408, 1899447441, 3049323471, 3921009573,
          961987163, 1508970993, 2453635748, 2870763221,
          3624381080, 310598401, 607225278, 1426881987,
          1925078388, 2162078206, 2614888103, 3248222580]
          [1751477356, 1870659584, 0, 0,
          0, 0, 0, 0,
          0, 0, 0, 0,
          0, 0, 0, 40]) =
     (1438486882, 2373480070, 2571409171, 955628771, 3991488677, 2270398595, 1629398990, 3161904517)"
  by (simp add: Let_def Sigma0_def Sigma1_def Ch_def Maj_def rotr_def w32_norm)

lemma rounds_hello_2:
  "foldl round256
     (1438486882, 2373480070, 2571409171, 955628771, 3991488677, 2270398595, 1629398990, 3161904517)
     (zip [3835390401, 4022224774, 264347078, 604807628,
          770255983, 1249150122, 1555081692, 1996064986,
          2554220882, 2821834349, 2952996808, 3210313671,
          3336571891, 3584528711, 113926993, 338241895]
          [1972668492, 1871773696, 3576877402, 2686180986,
          850623627, 2497315577, 3520615416, 3063633602,
          2470970563, 2529655973, 2734245958, 2224506095,
          568147562, 480471808, 1066760801, 544853894]) =
     (54269935, 3293355928, 227864588, 3300521401, 1068809038, 2929041628, 372952974, 2584429638)"
  by (simp add: Let_def Sigma0_def Sigma1_def Ch_def Maj_def rotr_def w32_norm)

lemma rounds_hello_3:
  "foldl round256
     (54269935, 3293355928, 227864588, 3300521401, 1068809038, 2929041628, 372952974, 2584429638)
     (zip [666307205, 773529912, 1294757372, 1396182291,
          1695183700, 1986661051, 2177026350, 2456956037,
          2730485921, 2820302411, 3259730800, 3345764771,
          3516065817, 3600352804, 4094571909, 275423344]
          [1811708987, 203464011, 573055580, 3994735195,
          3318782032, 120789122, 2540970949, 2791823097,
          3154398022, 2508558385, 1553517154, 1686506523,
          2129119095, 382031986, 2096528681, 1213710648]) =
     (2460675856, 4125581249, 3071815410, 3659240867, 2297046025, 1614943882, 363631285, 810597556)"
  by (simp add: Let_def Sigma0_def Sigma1_def Ch_def Maj_def rotr_def w32_norm)

lemma rounds_hello_4:
  "foldl round256
     (2460675856, 4125581249, 3071815410, 3659240867, 2297046025, 1614943882, 363631285, 810597556)
     (zip [430227734, 506948616, 659060556, 883997877,
          958139571, 1322822218, 1537002063, 1747873779,
          1955562222, 2024104815, 2227730452, 2361852424,
          2428436474, 2756734187, 3204031479, 3329325298]
          [2743028353, 905510147, 4050648290, 1834262428,
          2704274196, 4051799476, 4190818614, 3378566924,
          974714360, 4127060666, 3885636394, 1575633733,
          1880933106, 1016800738, 3378973474, 1044165985]) =
     (3270010707, 2756244617, 3933816760, 543812964, 3389508573, 2225199570, 1400920503, 933939979)"
  by (simp add: Let_def Sigma0_def Sigma1_def Ch_def Maj_def rotr_def w32_norm)

lemma zip_hello:
  "zip K256 hello_schedule =
     zip [1116352408, 1899447441, 3049323471, 3921009573,
         961987163, 1508970993, 2453635748, 2870763221,
         3624381080, 310598401, 607225278, 1426881987,
         1925078388, 2162078206, 2614888103, 3248222580]
         [1751477356, 1870659584, 0, 0,
         0, 0, 0, 0,
         0, 0, 0, 0,
         0, 0, 0, 40] @
     zip [3835390401, 4022224774, 264347078, 604807628,
         770255983, 1249150122, 1555081692, 1996064986,
         2554220882, 2821834349, 2952996808, 3210313671,
         3336571891, 3584528711, 113926993, 338241895]
         [1972668492, 1871773696, 3576877402, 2686180986,
         850623627, 2497315577, 3520615416, 3063633602,
         2470970563, 2529655973, 2734245958, 2224506095,
         568147562, 480471808, 1066760801, 544853894] @
     zip [666307205, 773529912, 1294757372, 1396182291,
         1695183700, 1986661051, 2177026350, 2456956037,
         2730485921, 2820302411, 3259730800, 3345764771,
         3516065817, 3600352804, 4094571909, 275423344]
         [1811708987, 203464011, 573055580, 3994735195,
         3318782032, 120789122, 2540970949, 2791823097,
         3154398022, 2508558385, 1553517154, 1686506523,
         2129119095, 382031986, 2096528681, 1213710648] @
     zip [430227734, 506948616, 659060556, 883997877,
         958139571, 1322822218, 1537002063, 1747873779,
         1955562222, 2024104815, 2227730452, 2361852424,
         2428436474, 2756734187, 3204031479, 3329325298]
         [2743028353, 905510147, 4050648290, 1834262428,
         2704274196, 4051799476, 4190818614, 3378566924,
         974714360, 4127060666, 3885636394, 1575633733,
         1880933106, 1016800738, 3378973474, 1044165985]"
  by (simp add: K256_def hello_schedule_def)

lemma compress_hello:
  "compress H256 hello_block =
     (754077114, 1605411598, 652753706, 3317293726, 454434396, 531055198, 1929655138, 2475399204)"
  unfolding compress_def schedule_hello zip_hello foldl_append
  by (simp only: H256_def rounds_hello_1 rounds_hello_2 rounds_hello_3 rounds_hello_4)
     (simp add: w32_norm)

lemma sha256_hexdigest_hello:
  "sha256_hexdigest ''hello'' =
     ''2cf24dba5fb0a30e26e83b2ac5b9e29e1b161e5c1fa7425e73043362938b9824''"
  by (simp add: sha256_hexdigest_def blocks_pad_hello compress_hello hex32_def hex_digit_def)

subsection \<open>Repository provisioning\<close>

text \<open>
  C8. \<^verbatim>\<open>ensure_repository_exists\<close>: when the describe call answers with a repository,
  its URI is returned and the describe call is the only call made; when the describe call
  raises \<^verbatim>\<open>RepositoryNotFoundException\<close>, the create call is made next and the URI it
  answers is returned; when the describe call raises any other exception, that very
  exception is the outcome and no create call is made.
\<close>

theorem ensure_repository_exists_cases:
  "(describe_repositories w h [ECR_REPO_NAME cfg] = Inr (uri # rest) \<longrightarrow>
      fst (ensure_repository_exists cfg w h) = Inr uri \<and>
      calls_of (snd (ensure_repository_exists cfg w h)) =
        calls_of h @ [DescribeRepositories [ECR_REPO_NAME cfg]]) \<and>
   (describe_repositories w h [ECR_REPO_NAME cfg] = Inl (RepositoryNotFoundException m) \<and>
    create_repository w
      (h @ [Call (DescribeRepositories [ECR_REPO_NAME cfg]),
            Log INFO [Lit ''ECR repository '', QOptStr (ECR_REPO_NAME cfg),
                      Lit '' not found, creating...'']])
      (ECR_REPO_NAME cfg) = Inr uri' \<longrightarrow>
      fst (ensure_repository_exists cfg w h) = Inr uri' \<and>
      calls_of (snd (ensure_repository_exists cfg w h)) =
        calls_of h @ [DescribeRepositories [ECR_REPO_NAME cfg],
                      CreateRepository (ECR_REPO_NAME cfg)]) \<and>
   (describe_repositories w h [ECR_REPO_NAME cfg] = Inl e \<and>
    \<not> is_RepositoryNotFoundException e \<longrightarrow>
      fst (ensure_repository_exists cfg w h) = Inl e \<and>
      calls_of (snd (ensure_repository_exists cfg w h)) =
        calls_of h @ [DescribeRepositories [ECR_REPO_NAME cfg]])"
  by (simp add: ensure_repository_exists_def Let_def calls_of_append)

theorem ensure_repository_exists_cases_witness:
  "fst (ensure_repository_exists test_config happy_world []) = Inr test_uri \<and>
   calls_of (snd (ensure_repository_exists test_config happy_world [])) =
     [DescribeRepositories [Some ''backup'']] \<and>
   fst (ensure_repository_exists test_config
          (happy_world\<lparr>describe_repositories :=
             (\<lambda>h names. Inl (RepositoryNotFoundException ''no such repository''))\<rparr>) [])
     = Inr test_uri \<and>
   calls_of (snd (ensure_repository_exists test_config
          (happy_world\<lparr>describe_repositories :=
             (\<lambda>h names. Inl (RepositoryNotFoundException ''no such repository''))\<rparr>) []))
     = [DescribeRepositories [Some ''backup''], CreateRepository (Some ''backup'')] \<and>
   fst (ensure_repository_exists test_config
          (happy_world\<lparr>describe_repositories :=
             (\<lambda>h names. Inl (ClientError ''AccessDeniedException''))\<rparr>) [])
     = Inl (ClientError ''AccessDeniedException'') \<and>
   calls_of (snd (ensure_repository_exists test_config
          (happy_world\<lparr>describe_repositories :=
             (\<lambda>h names. Inl (ClientError ''AccessDeniedException''))\<rparr>) []))
     = [DescribeRepositories [Some ''backup'']]"
  using
    ensure_repository_exists_cases [of happy_world "[]" test_config test_uri "[]"]
    ensure_repository_exists_cases [of
      "happy_world\<lparr>describe_repositories :=
         (\<lambda>h names. Inl (RepositoryNotFoundException ''no such repository''))\<rparr>"
      "[]" test_config _ _ "''no such repository''" test_uri]
    ensure_repository_exists_cases [of
      "happy_world\<lparr>describe_repositories :=
         (\<lambda>h names. Inl (ClientError ''AccessDeniedException''))\<rparr>"
      "[]" test_config _ _ _ _ "ClientError ''AccessDeniedException''"]
  by (simp add: happy_world_def test_config_def)

subsection \<open>Empty listing\<close>




subsection \<open>Publishing one object\<close>

text \<open>
  C3. A publish that succeeds has made, after fetching the authorization token, exactly
  the calls initiate, transfer, complete and put-image, in this order: the transfer sends
  the whole content as the byte range from 0 to \<open>len - 1\<close> under the upload identifier
  that initiate answered, and completion declares the single digest \<^verbatim>\<open>sha256:\<close>
  followed by the SHA-256 hex digest of the content, the digest whose first twelve
  characters are the tag.
\<close>

theorem upload_to_ecr_protocol:
  assumes "upload_to_ecr cfg w key b h = (Inr tag, h')"
  shows "\<exists>upload_id.
           initiate_layer_upload w
             (h @ [Log INFO [Lit ''Uploading S3 object '', QStr key, Lit '' to ECR...''],
                   Call GetAuthorizationToken])
             (ECR_REPO_NAME cfg) = Inr upload_id \<and>
           tag = take 12 (sha256_hexdigest b) \<and>
           calls_of h' = calls_of h @
             [GetAuthorizationToken,
              InitiateLayerUpload (ECR_REPO_NAME cfg),
              UploadLayerPart (ECR_REPO_NAME cfg) upload_id 0 (int (length b) - 1) b,
              CompleteLayerUpload (ECR_REPO_NAME cfg) upload_id [''sha256:'' @ sha256_hexdigest b],
              PutImage (ECR_REPO_NAME cfg)
                (image_manifest (''sha256:'' @ sha256_hexdigest b) (length b)) tag]"
proof -
  from upload_to_ecr_try_Inr [OF upload_to_ecr_Inr [OF assms]]
  obtain upload_id where
    "initiate_layer_upload w
       (h @ [Log INFO [Lit ''Uploading S3 object '', QStr key, Lit '' to ECR...''],
             Call GetAuthorizationToken])
       (ECR_REPO_NAME cfg) = Inr upload_id"
    and "tag = take 12 (sha256_hexdigest b)"
    and "h' = (h @ [Log INFO [Lit ''Uploading S3 object '', QStr key, Lit '' to ECR...''],
                   Call GetAuthorizationToken]) @
              [Call (InitiateLayerUpload (ECR_REPO_NAME cfg)),
               Call (UploadLayerPart (ECR_REPO_NAME cfg) upload_id 0 (int (length b) - 1) b),
               Call (CompleteLayerUpload (ECR_REPO_NAME cfg) upload_id
                       [''sha256:'' @ sha256_hexdigest b]),
               Call (PutImage (ECR_REPO_NAME cfg)
                       (image_manifest (''sha256:'' @ sha256_hexdigest b) (length b))
                       (take 12 (sha256_hexdigest b))),
               Log INFO [Lit ''Uploaded as image tag: '', Str (take 12 (sha256_hexdigest b))]]"
    by blast
  then show ?thesis
    by (simp add: calls_of_append)
qed

theorem upload_to_ecr_protocol_witness:
  "\<exists>upload_id.
     initiate_layer_upload happy_world
       ([] @ [Log INFO [Lit ''Uploading S3 object '', QStr ''file1.txt'', Lit '' to ECR...''],
              Call GetAuthorizationToken])
       (ECR_REPO_NAME test_config) = Inr upload_id \<and>
     take 12 (sha256_hexdigest ''hello'') = take 12 (sha256_hexdigest ''hello'') \<and>
     calls_of (snd (upload_to_ecr test_config happy_world ''file1.txt'' ''hello'' [])) =
       calls_of [] @
       [GetAuthorizationToken,
        InitiateLayerUpload (ECR_REPO_NAME test_config),
        UploadLayerPart (ECR_REPO_NAME test_config) upload_id 0 (int (length ''hello'') - 1) ''hello'',
        CompleteLayerUpload (ECR_REPO_NAME test_config) upload_id
          [''sha256:'' @ sha256_hexdigest ''hello''],
        PutImage (ECR_REPO_NAME test_config)
          (image_manifest (''sha256:'' @ sha256_hexdigest ''hello'') (length ''hello''))
          (take 12 (sha256_hexdigest ''hello''))]"
  using upload_to_ecr_protocol [OF happy_world_upload [of "''file1.txt''" "''hello''" "[]"]]
  by (simp only: happy_world_upload snd_conv)

text \<open>
  C6. The tag of a successful publish is the first twelve characters of the SHA-256 hex
  digest of the content: twelve characters, each a lower-case hexadecimal digit. The key,
  the configuration, the world and the history play no part, so two successful publishes
  of the same content give the same tag, whatever their keys.
\<close>

theorem upload_to_ecr_tag:
  assumes "upload_to_ecr cfg w k b h = (Inr tag, h')"
    and "upload_to_ecr cfg2 w2 k2 b h2 = (Inr tag2, h2')"
  shows "tag = take 12 (sha256_hexdigest b) \<and> length tag = 12 \<and>
         set tag \<subseteq> set ''0123456789abcdef'' \<and> tag2 = tag"
proof -
  from upload_to_ecr_try_Inr [OF upload_to_ecr_Inr [OF assms(1)]]
  have t: "tag = take 12 (sha256_hexdigest b)" by blast
  from upload_to_ecr_try_Inr [OF upload_to_ecr_Inr [OF assms(2)]]
  have t2: "tag2 = take 12 (sha256_hexdigest b)" by blast
  have "set (take 12 (sha256_hexdigest b)) \<subseteq> set (sha256_hexdigest b)"
    by (rule set_take_subset)
  then have "set (take 12 (sha256_hexdigest b)) \<subseteq> set ''0123456789abcdef''"
    using sha256_hexdigest_set [of b] by (rule subset_trans)
  moreover have "length (take 12 (sha256_hexdigest b)) = 12"
    by (simp add: sha256_hexdigest_length)
  ultimately show ?thesis
    using t t2 by simp
qed

theorem upload_to_ecr_tag_witness:
  "fst (upload_to_ecr test_config happy_world ''copy.txt'' ''hello'' []) =
     fst (upload_to_ecr test_config happy_world ''file1.txt'' ''hello'' []) \<and>
   length (take 12 (sha256_hexdigest ''hello'')) = 12 \<and>
   set (take 12 (sha256_hexdigest ''hello'')) \<subseteq> set ''0123456789abcdef''"
  using upload_to_ecr_tag [OF happy_world_upload [of "''file1.txt''" "''hello''" "[]"]
                              happy_world_upload [of "''copy.txt''" "''hello''" "[]"]]
  by (simp only: happy_world_upload fst_conv simp_thms)







subsection \<open>The sweep of untagged images\<close>




subsection \<open>The loop over the listed objects\<close>






subsection \<open>The run and the sweep\<close>

lemma sweep_calls_append:
  "filter is_sweep_call (calls_of (xs @ ys)) =
   filter is_sweep_call (calls_of xs) @ filter is_sweep_call (calls_of ys)"
  by (simp add: calls_of_append)

lemma ensure_repository_exists_no_sweep:
  "filter is_sweep_call (calls_of (snd (ensure_repository_exists cfg w h))) =
   filter is_sweep_call (calls_of h)"
  by (simp add: ensure_repository_exists_def Let_def sweep_calls_append
        split: sum.splits list.splits)

lemma upload_to_ecr_try_no_sweep:
  "filter is_sweep_call (calls_of (snd (upload_to_ecr_try cfg w b tag h))) =
   filter is_sweep_call (calls_of h)"
  by (simp add: upload_to_ecr_try_def Let_def sweep_calls_append split: sum.splits)

lemma upload_to_ecr_no_sweep:
  "filter is_sweep_call (calls_of (snd (upload_to_ecr cfg w key b h))) =
   filter is_sweep_call (calls_of h)"
proof -
  let ?h1 = "h @ [Log INFO [Lit ''Uploading S3 object '', QStr key, Lit '' to ECR...''],
                  Call GetAuthorizationToken]"
  have h1: "filter is_sweep_call (calls_of ?h1) = filter is_sweep_call (calls_of h)"
    by (simp add: sweep_calls_append)
  have "snd (upload_to_ecr cfg w key b h) = ?h1 \<or>
        snd (upload_to_ecr cfg w key b h) =
          snd (upload_to_ecr_try cfg w b (take 12 (sha256_hexdigest b)) ?h1) \<or>
        (\<exists>e. snd (upload_to_ecr cfg w key b h) =
          snd (upload_to_ecr_try cfg w b (take 12 (sha256_hexdigest b)) ?h1)
          @ [Log ERROR [Lit ''Failed to upload to ECR: '', Exn e]])"
    by (auto simp: upload_to_ecr_def Let_def split: sum.splits list.splits prod.splits)
  then show ?thesis
    using h1 upload_to_ecr_try_no_sweep [of cfg w b "take 12 (sha256_hexdigest b)" ?h1]
    by (auto simp: sweep_calls_append simp del: append_assoc)
qed

lemma process_objects_no_sweep:
  "filter is_sweep_call (calls_of (snd (process_objects cfg w keys results h))) =
   filter is_sweep_call (calls_of h)"
proof (induction keys arbitrary: results h)
  case Nil
  show ?case by simp
next
  case (Cons k ks)
  let ?h1 = "h @ [Log INFO [Lit ''Processing S3 object: '', Str k],
                  Call (GetObject (S3_BUCKET_NAME cfg) k)]"
  have h1: "filter is_sweep_call (calls_of ?h1) = filter is_sweep_call (calls_of h)"
    by (simp add: sweep_calls_append)
  show ?case
  proof (cases "get_object w (h @ [Log INFO [Lit ''Processing S3 object: '', Str k]])
                  (S3_BUCKET_NAME cfg) k")
    case (Inl e)
    then show ?thesis
      by (simp add: Let_def Cons.IH sweep_calls_append)
  next
    case (Inr file_bytes)
    obtain r h2 where u: "upload_to_ecr cfg w k file_bytes ?h1 = (r, h2)"
      by (cases "upload_to_ecr cfg w k file_bytes ?h1")
    have h2: "filter is_sweep_call (calls_of h2) = filter is_sweep_call (calls_of h)"
      using upload_to_ecr_no_sweep [of cfg w k file_bytes ?h1] u h1 by simp
    show ?thesis
      using Inr u h2 by (cases r) (simp_all add: Let_def Cons.IH)
  qed
qed

text \<open>
  C1. No run makes a call of the sweep: \<^verbatim>\<open>lambda_handler\<close> ends after the loop
  without calling \<^verbatim>\<open>cleanup_untagged_images\<close>, so the calls that list and delete
  untagged images, which only the sweep makes, are in its history exactly as often as
  they were before the run.
\<close>

theorem lambda_handler_never_sweeps:
  "filter is_sweep_call (calls_of (snd (lambda_handler cfg w h))) =
   filter is_sweep_call (calls_of h)"
proof -
  let ?h0 = "h @ [Log INFO [Lit ''Lambda function started.'']]"
  obtain r h1 where e: "ensure_repository_exists cfg w ?h0 = (r, h1)"
    by (cases "ensure_repository_exists cfg w ?h0")
  have h1: "filter is_sweep_call (calls_of h1) = filter is_sweep_call (calls_of h)"
    using ensure_repository_exists_no_sweep [of cfg w ?h0] e by (simp add: sweep_calls_append)
  show ?thesis
  proof (cases r)
    case (Inl x)
    then show ?thesis using e h1 by (simp add: lambda_handler_def Let_def)
  next
    case (Inr repo_uri)
    let ?h3 = "h1 @ [Log INFO [Lit ''ECR repository URI: '', Str repo_uri],
                     Call (ListObjectsV2 (S3_BUCKET_NAME cfg) (S3_PREFIX_FILTER cfg))]"
    have h3: "filter is_sweep_call (calls_of ?h3) = filter is_sweep_call (calls_of h)"
      using h1 by (simp add: sweep_calls_append)
    show ?thesis
    proof (cases "list_objects_v2 w (h1 @ [Log INFO [Lit ''ECR repository URI: '', Str repo_uri]])
                    (S3_BUCKET_NAME cfg) (S3_PREFIX_FILTER cfg)")
      case (Inl x)
      then show ?thesis
        using e Inr h1 by (simp add: lambda_handler_def Let_def sweep_calls_append)
    next
      case lst: (Inr contents)
      show ?thesis
      proof (cases contents)
        case None
        then show ?thesis
          using e Inr lst h1 by (simp add: lambda_handler_def Let_def sweep_calls_append)
      next
        case (Some keys)
        obtain r4 h4 where p: "process_objects cfg w keys [] ?h3 = (r4, h4)"
          by (cases "process_objects cfg w keys [] ?h3")
        have h4: "filter is_sweep_call (calls_of h4) = filter is_sweep_call (calls_of h)"
          using process_objects_no_sweep [of cfg w keys "[]" ?h3] p h3 by simp
        show ?thesis
          using e Inr lst Some p h4
          by (cases r4) (simp_all add: lambda_handler_def Let_def sweep_calls_append)
      qed
    qed
  qed
qed

subsection \<open>The end-to-end example\<close>

text \<open>
  C2. Let provisioning succeed, let the listing answer the single key \<^verbatim>\<open>file1.txt\<close>,
  let its fetch answer the bytes \<^verbatim>\<open>hello\<close> and let its publish succeed. Then the run
  returns the status \<^verbatim>\<open>success\<close> and a list of exactly one item, which pairs the key
  \<^verbatim>\<open>file1.txt\<close> with the tag \<^verbatim>\<open>2cf24dba5fb0\<close>, the first twelve characters of the
  SHA-256 hex digest of \<^verbatim>\<open>hello\<close>.
\<close>

theorem lambda_handler_file1:
  assumes ens: "ensure_repository_exists cfg w (h @ [Log INFO [Lit ''Lambda function started.'']])
                  = (Inr repo_uri, h1)"
    and lst: "list_objects_v2 w (h1 @ [Log INFO [Lit ''ECR repository URI: '', Str repo_uri]])
                (S3_BUCKET_NAME cfg) (S3_PREFIX_FILTER cfg) = Inr (Some [''file1.txt''])"
    and get: "get_object w
                (h1 @ [Log INFO [Lit ''ECR repository URI: '', Str repo_uri],
                       Call (ListObjectsV2 (S3_BUCKET_NAME cfg) (S3_PREFIX_FILTER cfg)),
                       Log INFO [Lit ''Processing S3 object: '', Str ''file1.txt'']])
                (S3_BUCKET_NAME cfg) ''file1.txt'' = Inr ''hello''"
    and up: "upload_to_ecr cfg w ''file1.txt'' ''hello''
               (h1 @ [Log INFO [Lit ''ECR repository URI: '', Str repo_uri],
                      Call (ListObjectsV2 (S3_BUCKET_NAME cfg) (S3_PREFIX_FILTER cfg)),
                      Log INFO [Lit ''Processing S3 object: '', Str ''file1.txt''],
                      Call (GetObject (S3_BUCKET_NAME cfg) ''file1.txt'')])
             = (Inr tag, h2)"
  shows "fst (lambda_handler cfg w h) =
           Inr \<lparr>status = ''success'',
                items = Some [\<lparr>object_key = ''file1.txt'', image_tag = ''2cf24dba5fb0''\<rparr>]\<rparr>"
proof -
  from upload_to_ecr_try_Inr [OF upload_to_ecr_Inr [OF up]]
  have "tag = take 12 (sha256_hexdigest ''hello'')" by blast
  then have tag: "tag = ''2cf24dba5fb0''"
    by (simp add: sha256_hexdigest_hello)
  show ?thesis
    using ens lst get up tag by (simp add: lambda_handler_def Let_def)
qed

theorem lambda_handler_file1_witness:
  "fst (lambda_handler test_config happy_world []) =
     Inr \<lparr>status = ''success'',
          items = Some [\<lparr>object_key = ''file1.txt'', image_tag = ''2cf24dba5fb0''\<rparr>]\<rparr>"
proof -
  have e: "ensure_repository_exists test_config happy_world
             ([] @ [Log INFO [Lit ''Lambda function started.'']])
           = (Inr test_uri,
              [Log INFO [Lit ''Lambda function started.''],
               Call (DescribeRepositories [Some ''backup'']),
               Log INFO [Lit ''ECR repository '', QOptStr (Some ''backup''),
                         Lit '' already exists.'']])"
    by (simp add: ensure_repository_exists_def happy_world_def test_config_def Let_def)
  have l: "list_objects_v2 happy_world
             ([Log INFO [Lit ''Lambda function started.''],
               Call (DescribeRepositories [Some ''backup'']),
               Log INFO [Lit ''ECR repository '', QOptStr (Some ''backup''),
                         Lit '' already exists.'']]
              @ [Log INFO [Lit ''ECR repository URI: '', Str test_uri]])
             (S3_BUCKET_NAME test_config) (S3_PREFIX_FILTER test_config)
           = Inr (Some [''file1.txt''])"
    by (simp add: happy_world_def)
  have g: "get_object happy_world
             ([Log INFO [Lit ''Lambda function started.''],
               Call (DescribeRepositories [Some ''backup'']),
               Log INFO [Lit ''ECR repository '', QOptStr (Some ''backup''),
                         Lit '' already exists.'']]
              @ [Log INFO [Lit ''ECR repository URI: '', Str test_uri],
                 Call (ListObjectsV2 (S3_BUCKET_NAME test_config) (S3_PREFIX_FILTER test_config)),
                 Log INFO [Lit ''Processing S3 object: '', Str ''file1.txt'']])
             (S3_BUCKET_NAME test_config) ''file1.txt'' = Inr ''hello''"
    by (simp add: happy_world_def)
  show ?thesis
    by (rule lambda_handler_file1 [OF e l g happy_world_upload])
qed

subsection \<open>The manifest\<close>




















end
